theory Spec2Isabelle
  imports Main "HOL-Library.Monad_Syntax"
begin

section \<open>Python strings\<close>

text \<open>
  A Python \<^verbatim>\<open>str\<close> is a sequence of Unicode code points, so a string is a list of
  code points (natural numbers). \<open>lit\<close> embeds an ASCII literal of the source.
\<close>

type_synonym pystr = "nat list"

definition lit :: "string \<Rightarrow> pystr" where
  "lit cs = map of_char cs"

text \<open>
  \<^verbatim>\<open>str.isspace\<close> on one code point: the characters that \<^verbatim>\<open>str.strip()\<close> and
  \<^verbatim>\<open>str.split()\<close> (both without argument) treat as whitespace: U+0009..U+000D,
  U+001C..U+0020, U+0085, U+00A0, U+1680, U+2000..U+200A, U+2028, U+2029, U+202F, U+205F
  and U+3000.
\<close>

definition isspace :: "nat \<Rightarrow> bool" where
  "isspace c \<longleftrightarrow>
     (9 \<le> c \<and> c \<le> 13) \<or> (28 \<le> c \<and> c \<le> 32) \<or> c = 133 \<or> c = 160 \<or>
     c = 5760 \<or> (8192 \<le> c \<and> c \<le> 8202) \<or> c = 8232 \<or> c = 8233 \<or>
     c = 8239 \<or> c = 8287 \<or> c = 12288"

text \<open>\<^verbatim>\<open>s.strip()\<close>: leading and trailing whitespace removed.\<close>

definition py_strip :: "pystr \<Rightarrow> pystr" where
  "py_strip s = rev (dropWhile isspace (rev (dropWhile isspace s)))"

text \<open>
  \<^verbatim>\<open>s.split()\<close>: the maximal runs of non-whitespace characters, in order. The scan
  carries the word read so far; a whitespace character closes it.
\<close>

fun split_scan :: "pystr \<Rightarrow> pystr \<Rightarrow> pystr list" where
  "split_scan w [] = (if w = [] then [] else [w])"
| "split_scan w (c # cs) =
     (if isspace c then (if w = [] then split_scan [] cs else w # split_scan [] cs)
      else split_scan (w @ [c]) cs)"

definition py_split :: "pystr \<Rightarrow> pystr list" where
  "py_split s = split_scan [] s"

text \<open>\<^verbatim>\<open>str(i)\<close> for a non-negative integer: its decimal digits.\<close>

fun str :: "nat \<Rightarrow> pystr" where
  "str n = (if n < 10 then [48 + n] else str (n div 10) @ [48 + n mod 10])"

declare str.simps [simp del]

section \<open>Documents and collections\<close>

text \<open>
  The pydantic models of the source. The fields of \<open>User\<close> and \<open>ActionItems\<close> that share
  a name with a field of \<open>Report\<close> carry a prefix. The \<^verbatim>\<open>_id\<close> that the database adds
  to every document is left out: the code reads it in \<^verbatim>\<open>check_report\<close> only.
\<close>

record Report =
  date :: pystr
  name :: pystr
  yesterday :: pystr
  today :: pystr
  blockers :: pystr

record User =
  user_name :: pystr

record Admin =
  email :: pystr
  password :: pystr

record ActionItems =
  items_date :: pystr
  items :: pystr

text \<open>
  A collection is the list of its documents in insertion order. \<open>find_one\<close> returns
  the first document that matches the query, \<open>find_to_list\<close> all of them in order,
  \<open>insert_one\<close> appends, \<open>delete_one\<close> removes the first match and \<open>delete_many\<close>
  every match.
\<close>

definition find_one :: "('a \<Rightarrow> bool) \<Rightarrow> 'a list \<Rightarrow> 'a option" where
  "find_one q xs = List.find q xs"

definition find_to_list :: "('a \<Rightarrow> bool) \<Rightarrow> 'a list \<Rightarrow> 'a list" where
  "find_to_list q xs = filter q xs"

definition insert_one :: "'a list \<Rightarrow> 'a \<Rightarrow> 'a list" where
  "insert_one xs x = xs @ [x]"

fun delete_one :: "('a \<Rightarrow> bool) \<Rightarrow> 'a list \<Rightarrow> 'a list" where
  "delete_one q [] = []"
| "delete_one q (x # xs) = (if q x then xs else x # delete_one q xs)"

definition delete_many :: "('a \<Rightarrow> bool) \<Rightarrow> 'a list \<Rightarrow> 'a list" where
  "delete_many q xs = filter (\<lambda>x. \<not> q x) xs"

text \<open>
  The generated document: the blocks that python-docx appends to the body, in order.
  A table is its style and its rows of cell texts.
\<close>

datatype block =
    Heading nat pystr
  | Table string "pystr list list"
  | Paragraph pystr

type_synonym document = "block list"

text \<open>
  Everything a handler can read or change: the four collections, the prompts handed
  to the external summarization service so far (one entry per attempt), and the files
  written to the working directory. The database calls themselves are taken to
  succeed, and the log lines of the source are left out.
\<close>

record world =
  users_collection :: "User list"
  reports_collection :: "Report list"
  action_items_collection :: "ActionItems list"
  admins_collection :: "Admin list"
  llm_invocations :: "pystr list"
  files :: "pystr \<rightharpoonup> document"

text \<open>
  \<^verbatim>\<open>raise HTTPException(status_code=..., detail=...)\<close> is the value \<open>Inl\<close> of a result;
  an exception of a library call is an \<open>Exception\<close>. A handler returns its result
  together with the world it leaves: a raise does not undo what was done before it.
\<close>

datatype HTTPException = HTTPException (status_code: nat) (detail: string)

datatype Exception = Exception string

section \<open>Authentication\<close>






definition startup_event :: "(pystr \<Rightarrow> pystr) \<Rightarrow> world \<Rightarrow> world" where
  "startup_event pwd_hash w =
     (let admin_email = lit ''aravind@gmail.com'';
          admin_password = lit ''Admin@1234''
      in case find_one (\<lambda>a. email a = admin_email) (admins_collection w) of
           None \<Rightarrow>
             w\<lparr>admins_collection := insert_one (admins_collection w)
                 \<lparr>email = admin_email, password = pwd_hash admin_password\<rparr>\<rparr>
         | Some admin \<Rightarrow> w)"

section \<open>The report workflow\<close>

text \<open>
  The handlers behind \<^verbatim>\<open>Depends(get_current_admin)\<close> receive the token that the
  dependency returned as their last argument, as in the source; none of them reads it.
\<close>

definition count_words :: "pystr \<Rightarrow> nat" where
  "count_words text = length (py_split (py_strip text))"

definition save_report ::
    "world \<Rightarrow> pystr \<Rightarrow> pystr \<Rightarrow> pystr \<Rightarrow> pystr \<Rightarrow> pystr
      \<Rightarrow> (HTTPException + string) \<times> world" where
  "save_report w d n y t b =
     (if count_words y > 10 \<or> count_words t > 10 then
        (Inl (HTTPException 400 ''Each field must not exceed 10 words''), w)
      else if py_strip y = [] \<or> py_strip t = [] then
        (Inl (HTTPException 400
           ''Yesterday's tasks and today's priorities cannot be empty''), w)
      else
        (case find_one (\<lambda>r. date r = d \<and> name r = n) (reports_collection w) of
           Some existing_report \<Rightarrow>
             (Inl (HTTPException 400 ''Report already exists for this user and date''), w)
         | None \<Rightarrow>
             (Inr ''Report saved successfully'',
              w\<lparr>reports_collection := insert_one (reports_collection w)
                  \<lparr>date = d, name = n, yesterday = y, today = t, blockers = b\<rparr>\<rparr>)))"

definition add_user :: "world \<Rightarrow> pystr \<Rightarrow> pystr \<Rightarrow> (HTTPException + string) \<times> world" where
  "add_user w n token =
     (case find_one (\<lambda>u. user_name u = n) (users_collection w) of
        Some existing_user \<Rightarrow> (Inl (HTTPException 400 ''User already exists''), w)
      | None \<Rightarrow>
          (Inr ''User added successfully'',
           w\<lparr>users_collection := insert_one (users_collection w) \<lparr>user_name = n\<rparr>\<rparr>))"

definition delete_user :: "world \<Rightarrow> pystr \<Rightarrow> pystr \<Rightarrow> (HTTPException + string) \<times> world" where
  "delete_user w n token =
     (case find_one (\<lambda>u. user_name u = n) (users_collection w) of
        None \<Rightarrow> (Inl (HTTPException 404 ''User not found''), w)
      | Some existing_user \<Rightarrow>
          (Inr ''User deleted successfully'',
           w\<lparr>users_collection := delete_one (\<lambda>u. user_name u = n) (users_collection w),
             reports_collection := delete_many (\<lambda>r. name r = n) (reports_collection w)\<rparr>))"

section \<open>The action-item generator\<close>

text \<open>
  The external summarization service is the parameter \<open>llm\<close>. It maps the prompt to
  the content of the response, or to the exception that is raised while the client is
  built, while the service is called or while the content is read. Each call of a
  handler may meet a different \<open>llm\<close>: the service need not answer the same prompt
  twice in the same way.
\<close>

definition report_lines :: "Report \<Rightarrow> pystr" where
  "report_lines report =
     name report @ lit '':'' @ [10] @
     lit ''- Yesterday: '' @ yesterday report @ [10] @
     lit ''- Today: '' @ today report @ [10] @
     lit ''- Blockers: '' @ blockers report @ [10, 10]"

definition build_content :: "Report list \<Rightarrow> pystr" where
  "build_content reports =
     foldl (\<lambda>content report. content @ report_lines report)
       (lit ''Daily Reports:'' @ [10]) reports"

definition build_prompt :: "pystr \<Rightarrow> pystr" where
  "build_prompt content =
     lit ''From the following daily reports, extract the main and unique action items based on the 'Today's Priorities' field. '' @ [10] @
     lit ''    Follow these guidelines:'' @ [10] @
     lit ''    - Extract each distinct task as a separate action item - do not combine unrelated tasks, even if they come from the same person.'' @ [10] @
     lit ''    - For example, if one person mentions both \"lead generation\" and \"MOM automation implementation\", treat them as two separate action items.'' @ [10] @
     lit ''    - Only consolidate tasks that are directly related (e.g., multiple aspects of the same feature like \"enhancing and testing\" the same agents).'' @ [10] @
     lit ''    - Focus on the primary objectives for the day.'' @ [10] @
     lit ''    - Each action item should be distinct and represent a unique goal or task.'' @ [10] @
     lit ''    - Output in bullet point format using this structure:'' @ [10] @
     lit ''    '' @ [8226] @ lit '' [Action Item]'' @ [10] @
     lit ''    - Ensure no unrelated tasks are merged together.'' @ [10] @
     [10] @
     lit ''    Reports:'' @ [10] @ content"

definition generate_action_items ::
    "(pystr \<Rightarrow> Exception + pystr) \<Rightarrow> world \<Rightarrow> pystr \<Rightarrow> pystr
      \<Rightarrow> (HTTPException + pystr) \<times> world" where
  "generate_action_items llm w d token =
     (let reports = find_to_list (\<lambda>r. date r = d) (reports_collection w) in
      if reports = [] then (Inl (HTTPException 404 ''No reports found for this date''), w)
      else
        (case find_one (\<lambda>a. items_date a = d) (action_items_collection w) of
           Some existing_action_items \<Rightarrow> (Inr (items existing_action_items), w)
         | None \<Rightarrow>
             let prompt = build_prompt (build_content reports);
                 w1 = w\<lparr>llm_invocations := llm_invocations w @ [prompt]\<rparr>
             in (case llm prompt of
                   Inl e \<Rightarrow> (Inl (HTTPException 500 ''Failed to generate action items''), w1)
                 | Inr response_content \<Rightarrow>
                     let action_items_text = py_strip response_content
                     in (Inr action_items_text,
                         w1\<lparr>action_items_collection :=
                              insert_one (action_items_collection w1)
                                \<lparr>items_date = d, items = action_items_text\<rparr>\<rparr>))))"

definition get_action_items :: "world \<Rightarrow> pystr \<Rightarrow> pystr \<Rightarrow> pystr" where
  "get_action_items w d token =
     (case find_one (\<lambda>a. items_date a = d) (action_items_collection w) of
        Some action_items \<Rightarrow> items action_items
      | None \<Rightarrow> [])"

section \<open>The export builder\<close>

text \<open>
  python-docx writes every text (of a heading, a cell or a paragraph) into a run of
  the document. The run puts a tab element for a tab and a line break for a carriage
  return as for a line feed, and hands the text between them to the XML library, which
  raises \<^verbatim>\<open>ValueError\<close> unless every character is XML-compatible: a tab, a line feed,
  a carriage return or a code point from U+0020 on, outside the surrogates U+D800..U+DFFF
  and other than U+FFFE and U+FFFF. The document reads a line break back as a line
  feed. So \<open>run_text\<close> gives the text as the document holds it, or \<open>None\<close> for the
  exception.
\<close>

definition xml_compatible :: "nat \<Rightarrow> bool" where
  "xml_compatible c \<longleftrightarrow>
     (c = 9 \<or> c = 10 \<or> c = 13 \<or> 32 \<le> c) \<and>
     (c < 55296 \<or> 57343 < c) \<and> c \<noteq> 65534 \<and> c \<noteq> 65535"

definition line_breaks :: "pystr \<Rightarrow> pystr" where
  "line_breaks text = map (\<lambda>c. if c = 13 then 10 else c) text"

definition run_text :: "pystr \<Rightarrow> pystr option" where
  "run_text text = (if list_all xml_compatible text then Some (line_breaks text) else None)"

text \<open>\<^verbatim>\<open>doc.add_heading(text, level)\<close> and a paragraph with one run of the text.\<close>

definition add_heading :: "document \<Rightarrow> pystr \<Rightarrow> nat \<Rightarrow> document option" where
  "add_heading doc text level = do { t \<leftarrow> run_text text; Some (doc @ [Heading level t]) }"

definition add_paragraph_run :: "document \<Rightarrow> pystr \<Rightarrow> document option" where
  "add_paragraph_run doc text = do { t \<leftarrow> run_text text; Some (doc @ [Paragraph t]) }"

text \<open>
  \<^verbatim>\<open>doc.add_table(rows, cols)\<close> makes a table of empty cells. Writing a cell that the
  table does not have raises \<^verbatim>\<open>IndexError\<close> in the source, and writing a text that is
  not XML-compatible raises \<^verbatim>\<open>ValueError\<close>: both are \<open>None\<close> here.
\<close>

definition add_table :: "nat \<Rightarrow> nat \<Rightarrow> pystr list list" where
  "add_table rows cols = replicate rows (replicate cols [])"

definition set_cell :: "pystr list list \<Rightarrow> nat \<Rightarrow> nat \<Rightarrow> pystr \<Rightarrow> pystr list list option" where
  "set_cell t r c v =
     (if r < length t \<and> c < length (t ! r) then
        do { v' \<leftarrow> run_text v; Some (t[r := (t ! r)[c := v']]) }
      else None)"

definition headers :: "pystr list" where
  "headers = [lit ''S.No'', lit ''Team Member'', lit ''Yesterday's Tasks'',
              lit ''Today's Priorities'', lit ''Blockers'']"

fun fill_headers :: "nat \<Rightarrow> pystr list \<Rightarrow> pystr list list \<Rightarrow> pystr list list option" where
  "fill_headers i [] t = Some t"
| "fill_headers i (header # hs) t =
     do { t' \<leftarrow> set_cell t 0 i header; fill_headers (Suc i) hs t' }"

fun fill_rows :: "nat \<Rightarrow> Report list \<Rightarrow> pystr list list \<Rightarrow> pystr list list option" where
  "fill_rows i [] t = Some t"
| "fill_rows i (report # reports) t =
     do { t0 \<leftarrow> set_cell t i 0 (str i);
          t1 \<leftarrow> set_cell t0 i 1 (name report);
          t2 \<leftarrow> set_cell t1 i 2 (yesterday report);
          t3 \<leftarrow> set_cell t2 i 3 (today report);
          t4 \<leftarrow> set_cell t3 i 4
                 (if blockers report \<noteq> [] then blockers report else lit ''None'');
          fill_rows (Suc i) reports t4 }"

record FileResponse =
  path :: pystr
  filename :: pystr
  media_type :: string

text \<open>
  \<^verbatim>\<open>doc.save(file_path)\<close> creates the file relative to the working directory. Whether
  the operating system lets it (the path may lead through a directory that does not
  exist, as with a slash in the date) is the parameter \<open>can_save\<close>; when it does not,
  the call raises and no file is written. Nothing in \<^verbatim>\<open>download_report\<close> catches the
  exceptions of the document library or of the save: they reach the client as the
  framework's status 500, and the handler has changed nothing by then.
\<close>

definition download_report ::
    "(pystr \<Rightarrow> bool) \<Rightarrow> world \<Rightarrow> pystr \<Rightarrow> pystr
      \<Rightarrow> (HTTPException + FileResponse) \<times> world" where
  "download_report can_save w d token =
     (let reports = find_to_list (\<lambda>r. date r = d) (reports_collection w);
          action_items = find_one (\<lambda>a. items_date a = d) (action_items_collection w)
      in
      if reports = [] then (Inl (HTTPException 404 ''No reports found for this date''), w)
      else
        (case
           do { doc1 \<leftarrow> add_heading [] (lit ''MOM Consolidated Report - '' @ d) 0;
                doc2 \<leftarrow> add_heading doc1 (lit ''Daily Progress Reports'') 1;
                t \<leftarrow> fill_headers 0 headers (add_table (length reports + 1) 5);
                table \<leftarrow> fill_rows 1 reports t;
                let doc3 = doc2 @ [Table ''Table Grid'' table];
                doc5 \<leftarrow>
                  (case action_items of
                     None \<Rightarrow> Some doc3
                   | Some a \<Rightarrow>
                       if items a \<noteq> [] then
                         do { doc4 \<leftarrow> add_heading doc3 (lit ''Action Items'') 1;
                              add_paragraph_run doc4 (items a) }
                       else Some doc3);
                let file_path = lit ''mom-report-'' @ d @ lit ''.docx'';
                if can_save file_path then Some (file_path, doc5) else None }
         of
           None \<Rightarrow> (Inl (HTTPException 500 ''Internal Server Error''), w)
         | Some (file_path, doc5) \<Rightarrow>
             (Inr \<lparr>path = file_path, filename = file_path,
                   media_type = ''application/vnd.openxmlformats-officedocument.wordprocessingml.document''\<rparr>,
              w\<lparr>files := (files w)(file_path \<mapsto> doc5)\<rparr>)))"

section \<open>Notions the properties are stated with\<close>

text \<open>At most one report per pair of date and name.\<close>

definition unique_reports :: "world \<Rightarrow> bool" where
  "unique_reports w \<longleftrightarrow> distinct (map (\<lambda>r. (date r, name r)) (reports_collection w))"

text \<open>
  A sequence of submissions, one \<^verbatim>\<open>save_report\<close> request after the other; each is the
  tuple of its form fields.
\<close>

type_synonym submission = "pystr \<times> pystr \<times> pystr \<times> pystr \<times> pystr"

fun submit_all :: "world \<Rightarrow> submission list \<Rightarrow> world" where
  "submit_all w [] = w"
| "submit_all w ((d, n, y, t, b) # rest) = submit_all (snd (save_report w d n y t b)) rest"

text \<open>
  The data row that the export shows for a report with sequence number \<open>i\<close>: the
  number, the member, the two task fields, and the blockers or the text \<open>None\<close>, each
  field as the document holds it.
\<close>

definition data_row :: "nat \<Rightarrow> Report \<Rightarrow> pystr list" where
  "data_row i report =
     [str i, line_breaks (name report), line_breaks (yesterday report),
      line_breaks (today report),
      if blockers report = [] then lit ''None'' else line_breaks (blockers report)]"

text \<open>A report that the document library accepts: all its fields are XML-compatible.\<close>

definition exportable :: "Report \<Rightarrow> bool" where
  "exportable report \<longleftrightarrow>
     list_all xml_compatible (name report) \<and> list_all xml_compatible (yesterday report) \<and>
     list_all xml_compatible (today report) \<and> list_all xml_compatible (blockers report)"

subsection \<open>Example data\<close>

definition empty_world :: world where
  "empty_world = \<lparr>users_collection = [], reports_collection = [],
     action_items_collection = [], admins_collection = [], llm_invocations = [],
     files = Map.empty\<rparr>"

definition alice_report :: Report where
  "alice_report = \<lparr>date = lit ''2024-01-01'', name = lit ''Alice'',
     yesterday = lit ''wrote tests'', today = lit ''review PR'', blockers = []\<rparr>"

definition alice_next_report :: Report where
  "alice_next_report = \<lparr>date = lit ''2024-01-02'', name = lit ''Alice'',
     yesterday = lit ''review PR'', today = lit ''merge PR'', blockers = []\<rparr>"

definition bob_report :: Report where
  "bob_report = \<lparr>date = lit ''2024-01-01'', name = lit ''Bob'',
     yesterday = lit ''fixed login'', today = lit ''deploy'', blockers = lit ''None''\<rparr>"

definition alice_items :: ActionItems where
  "alice_items = \<lparr>items_date = lit ''2024-01-01'', items = lit ''- review PR''\<rparr>"

text \<open>One report of Alice, nothing else.\<close>

definition alice_world :: world where
  "alice_world = empty_world\<lparr>reports_collection := [alice_report]\<rparr>"

text \<open>A team of two with their reports and the action items of the first day.\<close>

definition team_world :: world where
  "team_world = empty_world
     \<lparr>users_collection := [\<lparr>user_name = lit ''Alice''\<rparr>, \<lparr>user_name = lit ''Bob''\<rparr>],
       reports_collection := [alice_report, bob_report, alice_next_report],
       action_items_collection := [alice_items]\<rparr>"

text \<open>Action items of a date whose reports are gone (their authors were deleted).\<close>

definition orphan_world :: world where
  "orphan_world = empty_world\<lparr>action_items_collection := [alice_items]\<rparr>"

text \<open>
  A report with a form feed between the two words of \<open>yesterday\<close>, and a working
  directory without subdirectories: a path with a slash cannot be created there.
\<close>

definition form_feed_report :: Report where
  "form_feed_report = \<lparr>date = lit ''2024-01-03'', name = lit ''Alice'',
     yesterday = lit ''wrote'' @ [12] @ lit ''tests'', today = lit ''review PR'',
     blockers = []\<rparr>"

definition flat_directory :: "pystr \<Rightarrow> bool" where
  "flat_directory file_path \<longleftrightarrow> 47 \<notin> set file_path"

text \<open>A summarization service that answers, and one that fails.\<close>

definition answering_llm :: "pystr \<Rightarrow> Exception + pystr" where
  "answering_llm prompt = Inr (lit '' - review PR '')"

definition failing_llm :: "pystr \<Rightarrow> Exception + pystr" where
  "failing_llm prompt = Inl (Exception ''service unavailable'')"

text \<open>
  A password library for the examples: a hash is the password behind a prefix, and
  verifying against anything else raises.
\<close>

definition toy_hash :: "pystr \<Rightarrow> pystr" where
  "toy_hash plain = lit ''hash:'' @ plain"


definition admin_world :: world where
  "admin_world = empty_world
     \<lparr>admins_collection :=
        [\<lparr>email = lit ''root@example.com'', password = toy_hash (lit ''s3cret'')\<rparr>,
         \<lparr>email = lit ''old@example.com'', password = lit ''plaintext''\<rparr>]\<rparr>"

section \<open>Facts about the string functions\<close>

text \<open>
  The words that \<open>py_split\<close> returns are not empty and hold no whitespace, and
  together they are the text without its whitespace. Trimming the text first, as
  \<open>count_words\<close> does, does not change them.
\<close>

lemma split_scan_words:
  "\<forall>c \<in> set w. \<not> isspace c \<Longrightarrow>
   \<forall>x \<in> set (split_scan w s). x \<noteq> [] \<and> (\<forall>c \<in> set x. \<not> isspace c)"
proof (induction w s rule: split_scan.induct)
  case (1 w)
  then show ?case by simp
next
  case (2 w c cs)
  let ?good = "\<lambda>ws. \<forall>x \<in> set ws. x \<noteq> [] \<and> (\<forall>c \<in> set x. \<not> isspace c)"
  show ?case
  proof (cases "isspace c")
    case True
    show ?thesis
    proof (cases "w = []")
      case empty: True
      from "2.IH"(1) [OF True empty] have "?good (split_scan [] cs)" by simp
      with True empty show ?thesis by simp
    next
      case word: False
      from "2.IH"(2) [OF True word] have "?good (split_scan [] cs)" by simp
      with True word "2.prems" show ?thesis by simp
    qed
  next
    case False
    from "2.prems" False have "\<forall>c \<in> set (w @ [c]). \<not> isspace c" by simp
    with "2.IH"(3) [OF False] have "?good (split_scan (w @ [c]) cs)" by blast
    with False show ?thesis by simp
  qed
qed

lemma py_split_words:
  "x \<in> set (py_split s) \<Longrightarrow> x \<noteq> [] \<and> (\<forall>c \<in> set x. \<not> isspace c)"
  using split_scan_words [of "[]" s] by (simp add: py_split_def)

lemma split_scan_concat:
  "filter (\<lambda>c. \<not> isspace c) (w @ s) = concat (split_scan w s)"
  if "\<forall>c \<in> set w. \<not> isspace c"
  using that by (induction w s rule: split_scan.induct) (auto simp: filter_id_conv)

lemma py_split_concat: "concat (py_split s) = filter (\<lambda>c. \<not> isspace c) s"
  using split_scan_concat [of "[]" s] by (simp add: py_split_def)

lemma split_scan_leading:
  "split_scan [] (dropWhile isspace s) = split_scan [] s"
  by (induction s) auto

lemma split_scan_trailing:
  "\<forall>c \<in> set ws. isspace c \<Longrightarrow> split_scan w (s @ ws) = split_scan w s"
proof (induction w s rule: split_scan.induct)
  case (1 w)
  then show ?case by (induction ws arbitrary: w) auto
next
  case (2 w c cs)
  then show ?case by auto
qed

lemma py_split_strip: "py_split (py_strip s) = py_split s"
proof -
  let ?t = "dropWhile isspace s"
  have "?t = rev (dropWhile isspace (rev ?t)) @ rev (takeWhile isspace (rev ?t))"
    by (metis rev_append rev_rev_ident takeWhile_dropWhile_id)
  moreover have "\<forall>c \<in> set (rev (takeWhile isspace (rev ?t))). isspace c"
    by (auto dest: set_takeWhileD)
  ultimately have "split_scan [] ?t = split_scan [] (rev (dropWhile isspace (rev ?t)))"
    by (metis split_scan_trailing)
  then show ?thesis
    by (simp add: py_split_def py_strip_def split_scan_leading)
qed

lemma count_words_split: "count_words s = length (py_split s)"
  by (simp add: count_words_def py_split_strip)

section \<open>Facts about the collections and the examples\<close>

lemma find_one_None_iff: "find_one q xs = None \<longleftrightarrow> (\<forall>x \<in> set xs. \<not> q x)"
  by (auto simp: find_one_def find_None_iff)


lemma find_one_append_new:
  "find_one q xs = None \<Longrightarrow> q x \<Longrightarrow> find_one q (xs @ [x]) = Some x"
  by (induction xs) (auto simp: find_one_def split: if_splits)

lemmas string_defs = count_words_def py_split_def py_strip_def lit_def isspace_def

lemma count_words_examples:
  "count_words (lit ''wrote tests'') = 2"
  "count_words (lit ''review PR'') = 2"
  "count_words (lit ''a b c d e f g h i j k'') = 11"
  by (simp_all add: string_defs)

lemma py_strip_examples:
  "py_strip (lit ''wrote tests'') = lit ''wrote tests''"
  "py_strip (lit ''review PR'') = lit ''review PR''"
  "py_strip (lit '' - review PR '') = lit ''- review PR''"
  by (simp_all add: string_defs)

lemma lit_nonempty: "lit ''wrote tests'' \<noteq> []" "lit ''review PR'' \<noteq> []"
  by (simp_all add: lit_def)

section \<open>Report submission\<close>

text \<open>
  C2: a submission whose \<open>yesterday\<close> or \<open>today\<close> has more than 10 whitespace-separated
  words, or is empty after trimming, fails with status 400 and a validation message,
  and the world is unchanged; any other submission, when no report is stored for its
  date and name, appends the report with exactly the submitted fields.
\<close>

theorem save_report_validates:
  "(10 < count_words y \<or> 10 < count_words t \<longrightarrow>
      save_report w d n y t b =
        (Inl (HTTPException 400 ''Each field must not exceed 10 words''), w)) \<and>
   (count_words y \<le> 10 \<and> count_words t \<le> 10 \<and> (py_strip y = [] \<or> py_strip t = []) \<longrightarrow>
      save_report w d n y t b =
        (Inl (HTTPException 400
           ''Yesterday's tasks and today's priorities cannot be empty''), w)) \<and>
   (count_words y \<le> 10 \<and> count_words t \<le> 10 \<and> py_strip y \<noteq> [] \<and> py_strip t \<noteq> [] \<and>
    (d, n) \<notin> set (map (\<lambda>r. (date r, name r)) (reports_collection w)) \<longrightarrow>
      save_report w d n y t b =
        (Inr ''Report saved successfully'',
         w\<lparr>reports_collection := reports_collection w @
             [\<lparr>date = d, name = n, yesterday = y, today = t, blockers = b\<rparr>]\<rparr>))"
proof -
  have "find_one (\<lambda>r. date r = d \<and> name r = n) (reports_collection w) = None"
    if "(d, n) \<notin> set (map (\<lambda>r. (date r, name r)) (reports_collection w))"
    using that by (force simp: find_one_None_iff)
  then show ?thesis
    by (auto simp: save_report_def insert_one_def)
qed

theorem save_report_validates_witness:
  "10 < count_words (lit ''a b c d e f g h i j k'') \<and>
   save_report empty_world (lit ''2024-01-01'') (lit ''Alice'')
       (lit ''a b c d e f g h i j k'') (lit ''review PR'') [] =
     (Inl (HTTPException 400 ''Each field must not exceed 10 words''), empty_world) \<and>
   py_strip [32, 9] = [] \<and>
   save_report empty_world (lit ''2024-01-01'') (lit ''Alice'')
       (lit ''wrote tests'') [32, 9] [] =
     (Inl (HTTPException 400
        ''Yesterday's tasks and today's priorities cannot be empty''), empty_world) \<and>
   save_report empty_world (lit ''2024-01-01'') (lit ''Alice'')
       (lit ''wrote tests'') (lit ''review PR'') [] =
     (Inr ''Report saved successfully'', alice_world)"
proof -
  have space: "py_strip [32, 9] = []" "count_words [32, 9] = 0"
    by (simp_all add: string_defs)
  have fresh: "(lit ''2024-01-01'', lit ''Alice'') \<notin>
      set (map (\<lambda>r. (date r, name r)) (reports_collection empty_world))"
    by (simp add: empty_world_def)
  show ?thesis
    using save_report_validates [of "lit ''a b c d e f g h i j k''" "lit ''review PR''"
        empty_world "lit ''2024-01-01''" "lit ''Alice''" "[]"]
      save_report_validates [of "lit ''wrote tests''" "[32, 9]"
        empty_world "lit ''2024-01-01''" "lit ''Alice''" "[]"]
      save_report_validates [of "lit ''wrote tests''" "lit ''review PR''"
        empty_world "lit ''2024-01-01''" "lit ''Alice''" "[]"]
      fresh
    by (simp add: count_words_examples py_strip_examples lit_nonempty space
        alice_world_def alice_report_def empty_world_def)
qed

lemma save_report_unique:
  assumes "unique_reports w"
  shows "unique_reports (snd (save_report w d n y t b))"
proof (cases "find_one (\<lambda>r. date r = d \<and> name r = n) (reports_collection w)")
  case None
  then have "(d, n) \<notin> set (map (\<lambda>r. (date r, name r)) (reports_collection w))"
    by (auto simp: find_one_None_iff)
  with assms None show ?thesis
    by (auto simp: save_report_def unique_reports_def insert_one_def)
next
  case (Some r)
  with assms show ?thesis by (simp add: save_report_def)
qed

lemma submit_all_unique:
  "unique_reports w \<Longrightarrow> unique_reports (submit_all w reqs)"
proof (induction reqs arbitrary: w)
  case Nil
  then show ?case by simp
next
  case (Cons req reqs)
  obtain d n y t b where req: "req = (d, n, y, t, b)" by (cases req) auto
  from Cons.prems have "unique_reports (snd (save_report w d n y t b))"
    by (rule save_report_unique)
  then show ?case unfolding req by (simp add: Cons.IH)
qed

text \<open>
  C1 (amended): starting from a store with at most one report per date and name (the
  empty store in particular), every sequence of submissions leaves at most one report
  per date and name. A submission for a stored pair fails with status 400 and leaves
  the world unchanged; its message is the conflict only when both fields pass the
  validation, which comes first.
\<close>

theorem save_report_duplicate:
  "unique_reports (submit_all (w\<lparr>reports_collection := []\<rparr>) reqs) \<and>
   (unique_reports w \<longrightarrow> unique_reports (submit_all w reqs)) \<and>
   ((d, n) \<in> set (map (\<lambda>r. (date r, name r)) (reports_collection w)) \<longrightarrow>
      save_report w d n y t b =
        (Inl (HTTPException 400
          (if 10 < count_words y \<or> 10 < count_words t then
             ''Each field must not exceed 10 words''
           else if py_strip y = [] \<or> py_strip t = [] then
             ''Yesterday's tasks and today's priorities cannot be empty''
           else ''Report already exists for this user and date'')), w))"
proof -
  have "unique_reports (submit_all (w\<lparr>reports_collection := []\<rparr>) reqs)"
    by (rule submit_all_unique) (simp add: unique_reports_def)
  moreover have "find_one (\<lambda>r. date r = d \<and> name r = n) (reports_collection w) \<noteq> None"
    if "(d, n) \<in> set (map (\<lambda>r. (date r, name r)) (reports_collection w))"
    using that by (auto simp: find_one_None_iff)
  ultimately show ?thesis
    by (auto simp: save_report_def submit_all_unique)
qed

theorem save_report_duplicate_witness:
  "unique_reports alice_world \<and>
   submit_all empty_world
     [(lit ''2024-01-01'', lit ''Alice'', lit ''wrote tests'', lit ''review PR'', []),
      (lit ''2024-01-01'', lit ''Alice'', lit ''review PR'', lit ''wrote tests'', [])] =
     alice_world \<and>
   unique_reports (submit_all alice_world
     [(lit ''2024-01-01'', lit ''Alice'', lit ''review PR'', lit ''wrote tests'', [])]) \<and>
   save_report alice_world (lit ''2024-01-01'') (lit ''Alice'')
       (lit ''review PR'') (lit ''wrote tests'') [] =
     (Inl (HTTPException 400 ''Report already exists for this user and date''), alice_world)"
proof -
  have stored: "(lit ''2024-01-01'', lit ''Alice'') \<in>
      set (map (\<lambda>r. (date r, name r)) (reports_collection alice_world))"
    by (simp add: alice_world_def alice_report_def empty_world_def)
  have unique: "unique_reports alice_world"
    by (simp add: unique_reports_def alice_world_def empty_world_def)
  have first: "save_report empty_world (lit ''2024-01-01'') (lit ''Alice'')
       (lit ''wrote tests'') (lit ''review PR'') [] =
     (Inr ''Report saved successfully'', alice_world)"
    by (simp add: save_report_def count_words_examples py_strip_examples lit_nonempty
        find_one_def insert_one_def alice_world_def alice_report_def empty_world_def)
  have second: "save_report alice_world (lit ''2024-01-01'') (lit ''Alice'')
       (lit ''review PR'') (lit ''wrote tests'') [] =
     (Inl (HTTPException 400 ''Report already exists for this user and date''), alice_world)"
    using save_report_duplicate [of alice_world "[]" "lit ''2024-01-01''" "lit ''Alice''"
        "lit ''review PR''" "lit ''wrote tests''" "[]"] stored
    by (simp add: count_words_examples py_strip_examples lit_nonempty)
  show ?thesis
    using save_report_duplicate [of alice_world
        "[(lit ''2024-01-01'', lit ''Alice'', lit ''review PR'', lit ''wrote tests'', [])]"]
      unique first second
    by simp
qed

text \<open>
  The stored pair of Alice, submitted again with eleven words: the failure is the
  validation's, not the conflict.
\<close>

theorem save_report_duplicate_counterexample:
  "(lit ''2024-01-01'', lit ''Alice'') \<in>
      set (map (\<lambda>r. (date r, name r)) (reports_collection alice_world)) \<and>
   save_report alice_world (lit ''2024-01-01'') (lit ''Alice'')
       (lit ''a b c d e f g h i j k'') (lit ''review PR'') [] =
     (Inl (HTTPException 400 ''Each field must not exceed 10 words''), alice_world) \<and>
   HTTPException 400 ''Each field must not exceed 10 words'' \<noteq>
     HTTPException 400 ''Report already exists for this user and date''"
  by (simp add: save_report_def count_words_examples
      alice_world_def alice_report_def empty_world_def)

text \<open>
  C3 (amended): \<^verbatim>\<open>save_report\<close> does not read the user directory. Its result is the
  same whatever the directory holds, so a valid submission that is no duplicate is
  stored also when its name matches no user.
\<close>

theorem save_report_ignores_users:
  "save_report (w\<lparr>users_collection := us\<rparr>) d n y t b =
     (fst (save_report w d n y t b), (snd (save_report w d n y t b))\<lparr>users_collection := us\<rparr>)"
  by (simp add: save_report_def split: option.splits)

theorem save_report_ignores_users_witness:
  "save_report (empty_world\<lparr>users_collection := [\<lparr>user_name = lit ''Bob''\<rparr>]\<rparr>)
       (lit ''2024-01-01'') (lit ''Alice'') (lit ''wrote tests'') (lit ''review PR'') [] =
     (Inr ''Report saved successfully'',
      alice_world\<lparr>users_collection := [\<lparr>user_name = lit ''Bob''\<rparr>]\<rparr>)"
proof -
  have "save_report empty_world (lit ''2024-01-01'') (lit ''Alice'')
       (lit ''wrote tests'') (lit ''review PR'') [] =
     (Inr ''Report saved successfully'', alice_world)"
    by (simp add: save_report_def count_words_examples py_strip_examples lit_nonempty
        find_one_def insert_one_def alice_world_def alice_report_def empty_world_def)
  with save_report_ignores_users [where w = empty_world
      and us = "[\<lparr>user_name = lit ''Bob''\<rparr>]" and d = "lit ''2024-01-01''"
      and n = "lit ''Alice''" and y = "lit ''wrote tests''" and t = "lit ''review PR''"
      and b = "[]"]
  show ?thesis by simp
qed

text \<open>A report of Mallory, who is not in the directory of Alice and Bob, is stored.\<close>

theorem save_report_unknown_user_counterexample:
  "lit ''Mallory'' \<notin> set (map user_name (users_collection team_world)) \<and>
   save_report team_world (lit ''2024-01-01'') (lit ''Mallory'')
       (lit ''wrote tests'') (lit ''review PR'') [] =
     (Inr ''Report saved successfully'',
      team_world\<lparr>reports_collection := reports_collection team_world @
        [\<lparr>date = lit ''2024-01-01'', name = lit ''Mallory'', yesterday = lit ''wrote tests'',
          today = lit ''review PR'', blockers = []\<rparr>]\<rparr>)"
proof -
  have names: "lit ''Mallory'' \<noteq> lit ''Alice''" "lit ''Mallory'' \<noteq> lit ''Bob''"
    by (simp_all add: lit_def)
  then show ?thesis
    by (simp add: save_report_def count_words_examples py_strip_examples lit_nonempty
        find_one_def insert_one_def team_world_def alice_report_def bob_report_def
        alice_next_report_def empty_world_def)
qed

section \<open>Action items\<close>

lemma reports_for_date:
  "find_to_list (\<lambda>r. date r = d) rs \<noteq> [] \<longleftrightarrow> d \<in> set (map date rs)"
  by (auto simp: find_to_list_def filter_empty_conv)

lemma alice_world_reports:
  "find_to_list (\<lambda>r. date r = lit ''2024-01-01'') (reports_collection alice_world) =
     [alice_report]"
  by (simp add: find_to_list_def alice_world_def alice_report_def empty_world_def)

text \<open>
  C4: for a date with at least one report and a cached record, \<^verbatim>\<open>generate_action_items\<close>
  returns the cached text and leaves the world as it is: no prompt is sent and nothing
  is written. Hence after a successful call a second call for the same date, whatever
  the service would answer, returns the same text and changes nothing, and the two
  calls together send at most one prompt.
\<close>

theorem generate_action_items_idempotent:
  "(d \<in> set (map date (reports_collection w)) \<and>
    find_one (\<lambda>a. items_date a = d) (action_items_collection w) = Some cached \<longrightarrow>
      generate_action_items llm w d token = (Inr (items cached), w)) \<and>
   (generate_action_items llm w d token = (Inr res, w') \<longrightarrow>
      generate_action_items llm' w' d token' = (Inr res, w') \<and>
      length (llm_invocations w') \<le> length (llm_invocations w) + 1)"
proof -
  let ?reports = "find_to_list (\<lambda>r. date r = d) (reports_collection w)"
  let ?cache = "find_one (\<lambda>a. items_date a = d) (action_items_collection w)"
  have hit: "generate_action_items llm w d token = (Inr (items cached), w)"
    if "d \<in> set (map date (reports_collection w)) \<and> ?cache = Some cached"
  proof -
    from that have "?reports \<noteq> []" by (simp only: reports_for_date)
    with that show ?thesis by (simp add: generate_action_items_def)
  qed
  have twice: "generate_action_items llm' w' d token' = (Inr res, w') \<and>
      length (llm_invocations w') \<le> length (llm_invocations w) + 1"
    if ok: "generate_action_items llm w d token = (Inr res, w')"
  proof (cases ?cache)
    case (Some a)
    from ok have reports: "?reports \<noteq> []"
      by (auto simp: generate_action_items_def Let_def split: if_splits)
    with ok Some have "res = items a" "w' = w"
      by (auto simp: generate_action_items_def)
    with Some reports show ?thesis
      by (simp add: generate_action_items_def)
  next
    case None
    from ok have reports: "?reports \<noteq> []"
      by (auto simp: generate_action_items_def Let_def split: if_splits)
    with ok None obtain c where
      tx: "res = py_strip c" and
      w': "w' = w\<lparr>llm_invocations := llm_invocations w @ [build_prompt (build_content ?reports)],
                 action_items_collection := action_items_collection w @
                   [\<lparr>items_date = d, items = py_strip c\<rparr>]\<rparr>"
      by (auto simp: generate_action_items_def Let_def insert_one_def split: sum.splits)
    have "find_one (\<lambda>a. items_date a = d) (action_items_collection w') =
            Some \<lparr>items_date = d, items = py_strip c\<rparr>"
      unfolding w' using None by (simp add: find_one_append_new)
    moreover have "find_to_list (\<lambda>r. date r = d) (reports_collection w') \<noteq> []"
      unfolding w' using reports by simp
    ultimately have "generate_action_items llm' w' d token' = (Inr res, w')"
      by (simp add: generate_action_items_def tx)
    then show ?thesis by (simp add: w')
  qed
  from hit twice show ?thesis by blast
qed

theorem generate_action_items_idempotent_witness:
  "generate_action_items failing_llm team_world (lit ''2024-01-01'') [] =
     (Inr (lit ''- review PR''), team_world) \<and>
   generate_action_items answering_llm alice_world (lit ''2024-01-01'') [] =
     (Inr (lit ''- review PR''),
      alice_world\<lparr>llm_invocations := [build_prompt (build_content [alice_report])],
        action_items_collection := [alice_items]\<rparr>) \<and>
   generate_action_items failing_llm
       (alice_world\<lparr>llm_invocations := [build_prompt (build_content [alice_report])],
          action_items_collection := [alice_items]\<rparr>) (lit ''2024-01-01'') [] =
     (Inr (lit ''- review PR''),
      alice_world\<lparr>llm_invocations := [build_prompt (build_content [alice_report])],
        action_items_collection := [alice_items]\<rparr>)"
proof -
  have team: "lit ''2024-01-01'' \<in> set (map date (reports_collection team_world)) \<and>
      find_one (\<lambda>a. items_date a = lit ''2024-01-01'') (action_items_collection team_world) =
        Some alice_items"
    by (simp add: team_world_def empty_world_def alice_report_def alice_items_def find_one_def)
  have first: "generate_action_items answering_llm alice_world (lit ''2024-01-01'') [] =
     (Inr (lit ''- review PR''),
      alice_world\<lparr>llm_invocations := [build_prompt (build_content [alice_report])],
        action_items_collection := [alice_items]\<rparr>)"
    by (simp add: generate_action_items_def Let_def find_to_list_def answering_llm_def
        py_strip_examples alice_items_def alice_report_def insert_one_def find_one_def
        alice_world_def empty_world_def)
  have hit: "generate_action_items failing_llm team_world (lit ''2024-01-01'') [] =
      (Inr (items alice_items), team_world)"
    using generate_action_items_idempotent [where d = "lit ''2024-01-01''" and w = team_world
        and cached = alice_items and llm = failing_llm and token = "[]"] team
    by blast
  have again: "generate_action_items failing_llm
       (alice_world\<lparr>llm_invocations := [build_prompt (build_content [alice_report])],
          action_items_collection := [alice_items]\<rparr>) (lit ''2024-01-01'') [] =
     (Inr (lit ''- review PR''),
      alice_world\<lparr>llm_invocations := [build_prompt (build_content [alice_report])],
        action_items_collection := [alice_items]\<rparr>)"
    using generate_action_items_idempotent [where d = "lit ''2024-01-01''" and w = alice_world
        and llm = answering_llm and token = "[]" and res = "lit ''- review PR''"
        and llm' = failing_llm and token' = "[]"
        and w' = "alice_world\<lparr>llm_invocations := [build_prompt (build_content [alice_report])],
          action_items_collection := [alice_items]\<rparr>"] first
    by blast
  have "items alice_items = lit ''- review PR''" by (simp add: alice_items_def)
  with hit first again show ?thesis by (simp only: simp_thms)
qed

text \<open>
  C5: when \<^verbatim>\<open>generate_action_items\<close> reaches the summarization service (the date has
  reports and no cached record) and the service raises, the call fails with status
  500 and the action items stay as they were: only the sent prompt is recorded. A later
  call that the service answers then succeeds and stores the stripped answer.
\<close>

theorem generate_action_items_failure:
  "d \<in> set (map date (reports_collection w)) \<Longrightarrow>
   find_one (\<lambda>a. items_date a = d) (action_items_collection w) = None \<Longrightarrow>
   prompt = build_prompt (build_content
      (find_to_list (\<lambda>r. date r = d) (reports_collection w))) \<Longrightarrow>
   llm prompt = Inl e \<Longrightarrow>
   generate_action_items llm w d token =
     (Inl (HTTPException 500 ''Failed to generate action items''),
      w\<lparr>llm_invocations := llm_invocations w @ [prompt]\<rparr>) \<and>
   action_items_collection (snd (generate_action_items llm w d token)) =
     action_items_collection w \<and>
   (llm' prompt = Inr answer \<longrightarrow>
      generate_action_items llm' (w\<lparr>llm_invocations := llm_invocations w @ [prompt]\<rparr>)
          d token' =
        (Inr (py_strip answer),
         w\<lparr>llm_invocations := llm_invocations w @ [prompt, prompt],
           action_items_collection := action_items_collection w @
             [\<lparr>items_date = d, items = py_strip answer\<rparr>]\<rparr>))"
proof -
  assume "d \<in> set (map date (reports_collection w))"
  then have reports: "find_to_list (\<lambda>r. date r = d) (reports_collection w) \<noteq> []"
    by (simp only: reports_for_date)
  assume cache: "find_one (\<lambda>a. items_date a = d) (action_items_collection w) = None"
    and prompt: "prompt = build_prompt (build_content
      (find_to_list (\<lambda>r. date r = d) (reports_collection w)))"
    and fails: "llm prompt = Inl e"
  have failed: "generate_action_items llm w d token =
     (Inl (HTTPException 500 ''Failed to generate action items''),
      w\<lparr>llm_invocations := llm_invocations w @ [prompt]\<rparr>)"
    using reports cache fails
    by (simp add: generate_action_items_def Let_def prompt [symmetric])
  have retry: "generate_action_items llm' (w\<lparr>llm_invocations := llm_invocations w @ [prompt]\<rparr>)
        d token' =
        (Inr (py_strip answer),
         w\<lparr>llm_invocations := llm_invocations w @ [prompt, prompt],
           action_items_collection := action_items_collection w @
             [\<lparr>items_date = d, items = py_strip answer\<rparr>]\<rparr>)"
    if "llm' prompt = Inr answer"
    using reports cache that
    by (simp add: generate_action_items_def Let_def insert_one_def prompt [symmetric])
  from failed retry show ?thesis by simp
qed

theorem generate_action_items_failure_witness:
  "generate_action_items failing_llm alice_world (lit ''2024-01-01'') [] =
     (Inl (HTTPException 500 ''Failed to generate action items''),
      alice_world\<lparr>llm_invocations := [build_prompt (build_content [alice_report])]\<rparr>) \<and>
   action_items_collection
       (snd (generate_action_items failing_llm alice_world (lit ''2024-01-01'') [])) = [] \<and>
   generate_action_items answering_llm
       (alice_world\<lparr>llm_invocations := [build_prompt (build_content [alice_report])]\<rparr>)
       (lit ''2024-01-01'') [] =
     (Inr (lit ''- review PR''),
      alice_world\<lparr>llm_invocations :=
          [build_prompt (build_content [alice_report]),
           build_prompt (build_content [alice_report])],
        action_items_collection := [alice_items]\<rparr>)"
proof -
  have reports: "lit ''2024-01-01'' \<in> set (map date (reports_collection alice_world))"
    by (simp add: alice_world_def empty_world_def alice_report_def)
  have cache: "find_one (\<lambda>a. items_date a = lit ''2024-01-01'')
      (action_items_collection alice_world) = None"
    by (simp add: alice_world_def empty_world_def find_one_def)
  have prompt: "build_prompt (build_content [alice_report]) =
      build_prompt (build_content
        (find_to_list (\<lambda>r. date r = lit ''2024-01-01'') (reports_collection alice_world)))"
    by (simp only: alice_world_reports)
  have fails: "failing_llm (build_prompt (build_content [alice_report])) =
      Inl (Exception ''service unavailable'')"
    by (simp add: failing_llm_def)
  have answers: "answering_llm (build_prompt (build_content [alice_report])) =
      Inr (lit '' - review PR '')"
    by (simp add: answering_llm_def)
  have empty: "llm_invocations alice_world = []" "action_items_collection alice_world = []"
    by (simp_all add: alice_world_def empty_world_def)
  from generate_action_items_failure [where llm = failing_llm and llm' = answering_llm
      and answer = "lit '' - review PR ''" and token = "[]" and token' = "[]",
      OF reports cache prompt fails] answers
  show ?thesis
    by (simp add: empty py_strip_examples alice_items_def)
qed

text \<open>
  Action items without reports arise in use: Alice is added, submits her report, the
  action items of the day are generated, and Alice is deleted with her reports.
\<close>

lemma orphan_world_reachable:
  "snd (delete_user
     (snd (generate_action_items answering_llm
        (snd (save_report (snd (add_user empty_world (lit ''Alice'') []))
           (lit ''2024-01-01'') (lit ''Alice'') (lit ''wrote tests'') (lit ''review PR'') []))
        (lit ''2024-01-01'') []))
     (lit ''Alice'') []) =
   orphan_world\<lparr>llm_invocations := [build_prompt (build_content [alice_report])]\<rparr>"
  by (simp add: add_user_def save_report_def generate_action_items_def delete_user_def
      Let_def find_one_def find_to_list_def insert_one_def delete_many_def
      count_words_examples py_strip_examples lit_nonempty answering_llm_def
      orphan_world_def empty_world_def alice_report_def alice_items_def)

text \<open>
  C10: for a date without reports \<^verbatim>\<open>generate_action_items\<close> fails with status 404
  and changes nothing, also when action items are cached for the date, while
  \<^verbatim>\<open>get_action_items\<close> still returns the cached text.
\<close>

theorem generate_action_items_no_reports:
  "d \<notin> set (map date (reports_collection w)) \<Longrightarrow>
   generate_action_items llm w d token =
     (Inl (HTTPException 404 ''No reports found for this date''), w) \<and>
   (find_one (\<lambda>a. items_date a = d) (action_items_collection w) = Some cached \<longrightarrow>
      get_action_items w d token' = items cached)"
proof -
  assume "d \<notin> set (map date (reports_collection w))"
  then have "find_to_list (\<lambda>r. date r = d) (reports_collection w) = []"
    using reports_for_date [of d "reports_collection w"] by blast
  then show ?thesis
    by (simp add: generate_action_items_def get_action_items_def)
qed

theorem generate_action_items_no_reports_witness:
  "generate_action_items answering_llm orphan_world (lit ''2024-01-01'') [] =
     (Inl (HTTPException 404 ''No reports found for this date''), orphan_world) \<and>
   get_action_items orphan_world (lit ''2024-01-01'') [] = lit ''- review PR''"
proof -
  have none: "lit ''2024-01-01'' \<notin> set (map date (reports_collection orphan_world))"
    by (simp add: orphan_world_def empty_world_def)
  have cached: "find_one (\<lambda>a. items_date a = lit ''2024-01-01'')
      (action_items_collection orphan_world) = Some alice_items"
    by (simp add: orphan_world_def empty_world_def find_one_def alice_items_def)
  have "items alice_items = lit ''- review PR''" by (simp add: alice_items_def)
  with generate_action_items_no_reports [OF none, where llm = answering_llm and token = "[]"
      and cached = alice_items and token' = "[]"] cached
  show ?thesis by simp
qed

section \<open>User deletion\<close>

lemma delete_one_keeps_others:
  "filter (\<lambda>x. \<not> q x) (delete_one q xs) = filter (\<lambda>x. \<not> q x) xs"
  by (induction xs) auto

lemma delete_one_length:
  "\<exists>x \<in> set xs. q x \<Longrightarrow> Suc (length (delete_one q xs)) = length xs"
  by (induction xs) auto

lemma delete_one_distinct:
  "distinct (map f xs) \<Longrightarrow> delete_one (\<lambda>x. f x = k) xs = filter (\<lambda>x. f x \<noteq> k) xs"
proof (induction xs)
  case Nil
  then show ?case by simp
next
  case (Cons x xs)
  show ?case
  proof (cases "f x = k")
    case True
    from Cons.prems have "f x \<notin> f ` set xs" by simp
    with True have "\<forall>y \<in> set xs. f y \<noteq> k" by blast
    then have "filter (\<lambda>x. f x \<noteq> k) xs = xs" by (simp add: filter_id_conv)
    with True show ?thesis by simp
  next
    case False
    with Cons show ?thesis by simp
  qed
qed

text \<open>
  C6: \<^verbatim>\<open>delete_user\<close> fails with status 404 and changes nothing when no user has the
  name. Otherwise it removes one user document of that name (the only one when names
  are distinct) and every report of that name, on whatever date; the other users, the
  other reports in their order, the action items, the admins, the recorded prompts and
  the files stay as they were.
\<close>

theorem delete_user_cascade:
  "(n \<notin> set (map user_name (users_collection w)) \<longrightarrow>
      delete_user w n token = (Inl (HTTPException 404 ''User not found''), w)) \<and>
   (n \<in> set (map user_name (users_collection w)) \<longrightarrow>
      delete_user w n token =
        (Inr ''User deleted successfully'',
         w\<lparr>users_collection := delete_one (\<lambda>u. user_name u = n) (users_collection w),
           reports_collection := filter (\<lambda>r. name r \<noteq> n) (reports_collection w)\<rparr>) \<and>
      Suc (length (delete_one (\<lambda>u. user_name u = n) (users_collection w))) =
        length (users_collection w) \<and>
      filter (\<lambda>u. user_name u \<noteq> n) (delete_one (\<lambda>u. user_name u = n) (users_collection w)) =
        filter (\<lambda>u. user_name u \<noteq> n) (users_collection w) \<and>
      (distinct (map user_name (users_collection w)) \<longrightarrow>
         delete_one (\<lambda>u. user_name u = n) (users_collection w) =
           filter (\<lambda>u. user_name u \<noteq> n) (users_collection w)))"
proof -
  have absent: "delete_user w n token = (Inl (HTTPException 404 ''User not found''), w)"
    if "n \<notin> set (map user_name (users_collection w))"
  proof -
    from that have "find_one (\<lambda>u. user_name u = n) (users_collection w) = None"
      by (auto simp: find_one_None_iff)
    then show ?thesis by (simp add: delete_user_def)
  qed
  have present: "delete_user w n token =
        (Inr ''User deleted successfully'',
         w\<lparr>users_collection := delete_one (\<lambda>u. user_name u = n) (users_collection w),
           reports_collection := filter (\<lambda>r. name r \<noteq> n) (reports_collection w)\<rparr>)"
    if "n \<in> set (map user_name (users_collection w))"
  proof -
    from that have "find_one (\<lambda>u. user_name u = n) (users_collection w) \<noteq> None"
      by (auto simp: find_one_None_iff)
    then show ?thesis by (auto simp: delete_user_def delete_many_def)
  qed
  have one: "Suc (length (delete_one (\<lambda>u. user_name u = n) (users_collection w))) =
        length (users_collection w)"
    if "n \<in> set (map user_name (users_collection w))"
    using that by (intro delete_one_length) auto
  from absent present one show ?thesis
    by (simp add: delete_one_keeps_others delete_one_distinct)
qed

theorem delete_user_cascade_witness:
  "delete_user team_world (lit ''Carol'') [] =
     (Inl (HTTPException 404 ''User not found''), team_world) \<and>
   delete_user team_world (lit ''Alice'') [] =
     (Inr ''User deleted successfully'',
      team_world\<lparr>users_collection := [\<lparr>user_name = lit ''Bob''\<rparr>],
        reports_collection := [bob_report]\<rparr>) \<and>
   action_items_collection (snd (delete_user team_world (lit ''Alice'') [])) = [alice_items]"
proof -
  have names: "lit ''Carol'' \<noteq> lit ''Alice''" "lit ''Carol'' \<noteq> lit ''Bob''"
    "lit ''Bob'' \<noteq> lit ''Alice''"
    by (simp_all add: lit_def)
  have carol: "lit ''Carol'' \<notin> set (map user_name (users_collection team_world))"
    using names by (simp add: team_world_def empty_world_def)
  have alice: "lit ''Alice'' \<in> set (map user_name (users_collection team_world))"
    by (simp add: team_world_def empty_world_def)
  have users: "delete_one (\<lambda>u. user_name u = lit ''Alice'') (users_collection team_world) =
      [\<lparr>user_name = lit ''Bob''\<rparr>]"
    by (simp add: team_world_def empty_world_def)
  have reports: "filter (\<lambda>r. name r \<noteq> lit ''Alice'') (reports_collection team_world) =
      [bob_report]"
    using names
    by (simp add: team_world_def empty_world_def alice_report_def bob_report_def
        alice_next_report_def)
  have items: "action_items_collection team_world = [alice_items]"
    by (simp add: team_world_def empty_world_def)
  from delete_user_cascade [where w = team_world and n = "lit ''Carol''" and token = "[]"]
    delete_user_cascade [where w = team_world and n = "lit ''Alice''" and token = "[]"]
    carol alice
  show ?thesis
    by (simp add: users reports items)
qed

section \<open>Administrators\<close>

text \<open>
  C8 (amended): the startup looks for an admin with the fixed email. When there is
  none it appends the default admin, with the fixed email and the hash of the fixed
  password, whatever other admins are stored; when there is one, the world is
  unchanged. In particular an empty admin store is seeded.
\<close>

theorem startup_event_seeds:
  "(lit ''aravind@gmail.com'' \<notin> set (map email (admins_collection w)) \<longrightarrow>
      startup_event pwd_hash w =
        w\<lparr>admins_collection := admins_collection w @
            [\<lparr>email = lit ''aravind@gmail.com'', password = pwd_hash (lit ''Admin@1234'')\<rparr>]\<rparr>) \<and>
   (lit ''aravind@gmail.com'' \<in> set (map email (admins_collection w)) \<longrightarrow>
      startup_event pwd_hash w = w) \<and>
   (admins_collection w = [] \<longrightarrow>
      admins_collection (startup_event pwd_hash w) =
        [\<lparr>email = lit ''aravind@gmail.com'', password = pwd_hash (lit ''Admin@1234'')\<rparr>])"
proof -
  let ?q = "\<lambda>a. email a = lit ''aravind@gmail.com''"
  have "find_one ?q (admins_collection w) = None"
    if "lit ''aravind@gmail.com'' \<notin> set (map email (admins_collection w))"
    using that by (force simp: find_one_None_iff)
  moreover have "find_one ?q (admins_collection w) \<noteq> None"
    if "lit ''aravind@gmail.com'' \<in> set (map email (admins_collection w))"
    using that by (auto simp: find_one_None_iff)
  ultimately show ?thesis
    by (auto simp: startup_event_def Let_def insert_one_def)
qed

theorem startup_event_seeds_witness:
  "startup_event toy_hash empty_world =
     empty_world\<lparr>admins_collection :=
       [\<lparr>email = lit ''aravind@gmail.com'', password = toy_hash (lit ''Admin@1234'')\<rparr>]\<rparr> \<and>
   startup_event toy_hash (startup_event toy_hash empty_world) =
     startup_event toy_hash empty_world"
proof -
  let ?seeded = "empty_world\<lparr>admins_collection :=
       [\<lparr>email = lit ''aravind@gmail.com'', password = toy_hash (lit ''Admin@1234'')\<rparr>]\<rparr>"
  have none: "lit ''aravind@gmail.com'' \<notin> set (map email (admins_collection empty_world))"
    "admins_collection empty_world = []"
    by (simp_all add: empty_world_def)
  have some: "lit ''aravind@gmail.com'' \<in> set (map email (admins_collection ?seeded))"
    by simp
  from startup_event_seeds [where w = empty_world and pwd_hash = toy_hash] none
  have first: "startup_event toy_hash empty_world = ?seeded" by simp
  from startup_event_seeds [where w = ?seeded and pwd_hash = toy_hash] some
  have "startup_event toy_hash ?seeded = ?seeded" by blast
  with first show ?thesis by simp
qed

text \<open>
  An admin store that holds admins, but none with the fixed email: the startup adds
  the default admin to it.
\<close>

theorem startup_event_other_admin_counterexample:
  "admins_collection admin_world \<noteq> [] \<and>
   admins_collection (startup_event toy_hash admin_world) =
     admins_collection admin_world @
       [\<lparr>email = lit ''aravind@gmail.com'', password = toy_hash (lit ''Admin@1234'')\<rparr>] \<and>
   admins_collection (startup_event toy_hash admin_world) \<noteq> admins_collection admin_world"
proof -
  have "lit ''root@example.com'' \<noteq> lit ''aravind@gmail.com''"
    "lit ''old@example.com'' \<noteq> lit ''aravind@gmail.com''"
    by (simp_all add: lit_def)
  then show ?thesis
    by (simp add: startup_event_def Let_def find_one_def insert_one_def admin_world_def
        empty_world_def)
qed



section \<open>The exported document\<close>

text \<open>What the document library accepts, and what it makes of the fixed texts.\<close>

lemma run_text_accepts: "list_all xml_compatible s \<Longrightarrow> run_text s = Some (line_breaks s)"
  by (simp add: run_text_def)

lemma run_text_rejects: "\<not> list_all xml_compatible s \<Longrightarrow> run_text s = None"
  by (simp add: run_text_def)

lemma fixed_texts:
  "run_text (lit ''S.No'') = Some (lit ''S.No'')"
  "run_text (lit ''Team Member'') = Some (lit ''Team Member'')"
  "run_text (lit ''Yesterday's Tasks'') = Some (lit ''Yesterday's Tasks'')"
  "run_text (lit ''Today's Priorities'') = Some (lit ''Today's Priorities'')"
  "run_text (lit ''Blockers'') = Some (lit ''Blockers'')"
  "run_text (lit ''None'') = Some (lit ''None'')"
  "run_text (lit ''Daily Progress Reports'') = Some (lit ''Daily Progress Reports'')"
  "run_text (lit ''Action Items'') = Some (lit ''Action Items'')"
  by (simp_all add: run_text_def line_breaks_def xml_compatible_def lit_def)

lemma title_text:
  "run_text (lit ''MOM Consolidated Report - '' @ d) =
     (if list_all xml_compatible d
      then Some (lit ''MOM Consolidated Report - '' @ line_breaks d) else None)"
  by (simp add: run_text_def line_breaks_def xml_compatible_def lit_def)

lemma str_digits: "list_all (\<lambda>c. 48 \<le> c \<and> c \<le> 57) (str n)"
proof (induction n rule: str.induct)
  case (1 n)
  show ?case
  proof (cases "n < 10")
    case True
    then show ?thesis by (subst str.simps) simp
  next
    case False
    with 1 have "list_all (\<lambda>c. 48 \<le> c \<and> c \<le> 57) (str (n div 10))" by simp
    moreover have "n mod 10 \<le> 9" by simp
    ultimately show ?thesis using False by (subst str.simps) simp
  qed
qed

lemma plain_text:
  "list_all (\<lambda>c. 32 \<le> c \<and> c < 55296) s \<Longrightarrow>
   list_all xml_compatible s \<and> line_breaks s = s"
  by (induction s) (auto simp: xml_compatible_def line_breaks_def)

lemma str_text: "run_text (str n) = Some (str n)"
proof -
  have "list_all (\<lambda>c. 32 \<le> c \<and> c < 55296) (str n)"
    using str_digits [of n] by (auto simp: list_all_iff)
  then show ?thesis by (simp add: run_text_def plain_text)
qed

text \<open>
  The two loops over the table never leave it. They fill it row by row when the
  library accepts every field, and the first field it refuses ends the export.
\<close>

lemma fill_headers_table:
  "fill_headers 0 headers (add_table (Suc n) 5) =
     Some (headers # replicate n [[], [], [], [], []])"
  by (simp add: headers_def add_table_def set_cell_def fixed_texts eval_nat_numeral)

lemma fill_row_step:
  "exportable report \<Longrightarrow>
   fill_rows (Suc (length pre)) (report # reports)
     (h # pre @ [[], [], [], [], []] # rest) =
   fill_rows (Suc (Suc (length pre))) reports
     (h # pre @ data_row (Suc (length pre)) report # rest)"
  by (simp add: set_cell_def data_row_def exportable_def run_text_accepts str_text
      fixed_texts nth_append eval_nat_numeral)

lemma fill_rows_table:
  "list_all exportable reports \<Longrightarrow>
   fill_rows (Suc (length pre)) reports
     (h # pre @ replicate (length reports) [[], [], [], [], []]) =
   Some (h # pre @ map (\<lambda>(i, r). data_row i r) (enumerate (Suc (length pre)) reports))"
proof (induction reports arbitrary: pre)
  case Nil
  then show ?case by simp
next
  case (Cons report reports)
  from Cons.prems have ok: "exportable report" and rest: "list_all exportable reports"
    by simp_all
  have "fill_rows (Suc (length pre)) (report # reports)
          (h # pre @ replicate (length (report # reports)) [[], [], [], [], []]) =
        fill_rows (Suc (length (pre @ [data_row (Suc (length pre)) report]))) reports
          (h # (pre @ [data_row (Suc (length pre)) report]) @
             replicate (length reports) [[], [], [], [], []])"
    using fill_row_step [OF ok, of pre reports h
        "replicate (length reports) [[], [], [], [], []]"]
    by simp
  also have "\<dots> = Some (h # (pre @ [data_row (Suc (length pre)) report]) @
      map (\<lambda>(i, r). data_row i r)
        (enumerate (Suc (length (pre @ [data_row (Suc (length pre)) report]))) reports))"
    by (rule Cons.IH [OF rest])
  finally show ?case by simp
qed

lemma set_cell_rejects: "\<not> list_all xml_compatible v \<Longrightarrow> set_cell t r c v = None"
  by (simp add: set_cell_def run_text_def)

lemma fill_rows_rejects:
  "\<not> list_all exportable reports \<Longrightarrow> fill_rows i reports t = None"
proof (induction reports arbitrary: i t)
  case Nil
  then show ?case by simp
next
  case (Cons report reports)
  show ?case
  proof (cases "exportable report")
    case True
    with Cons.prems have "\<not> list_all exportable reports" by simp
    then have "fill_rows (Suc i) reports t' = None" for t'
      by (rule Cons.IH)
    then show ?thesis by (simp split: bind_splits)
  next
    case False
    then consider "\<not> list_all xml_compatible (name report)"
      | "\<not> list_all xml_compatible (yesterday report)"
      | "\<not> list_all xml_compatible (today report)"
      | "\<not> list_all xml_compatible (blockers report)"
      by (auto simp: exportable_def)
    then show ?thesis
    proof cases
      case 4
      then have "blockers report \<noteq> []" by auto
      with 4 show ?thesis by (simp add: set_cell_rejects split: bind_splits)
    qed (simp_all add: set_cell_rejects split: bind_splits)
  qed
qed

lemma fill_rows_export:
  "fill_rows (Suc 0) reports (headers # replicate (length reports) [[], [], [], [], []]) =
   (if list_all exportable reports
    then Some (headers # map (\<lambda>(i, r). data_row i r) (enumerate (Suc 0) reports))
    else None)"
  using fill_rows_table [of reports "[]" headers] fill_rows_rejects [of reports]
  by simp

text \<open>
  The whole of \<^verbatim>\<open>download_report\<close> for a date with reports: the document is saved
  and returned when the library accepts the date, every field of the reports and the
  cached action items, and the file can be created; otherwise the client gets status
  500 and nothing has changed.
\<close>

lemma download_report_result:
  assumes "d \<in> set (map date (reports_collection w))"
  shows "download_report can_save w d token =
     (if list_all xml_compatible d \<and>
         list_all exportable (filter (\<lambda>r. date r = d) (reports_collection w)) \<and>
         list_all xml_compatible (get_action_items w d token) \<and>
         can_save (lit ''mom-report-'' @ d @ lit ''.docx'')
      then
        (Inr \<lparr>path = lit ''mom-report-'' @ d @ lit ''.docx'',
              filename = lit ''mom-report-'' @ d @ lit ''.docx'',
              media_type =
                ''application/vnd.openxmlformats-officedocument.wordprocessingml.document''\<rparr>,
         w\<lparr>files := (files w)(lit ''mom-report-'' @ d @ lit ''.docx'' \<mapsto>
            [Heading 0 (lit ''MOM Consolidated Report - '' @ line_breaks d),
             Heading 1 (lit ''Daily Progress Reports''),
             Table ''Table Grid''
               (headers # map (\<lambda>(i, r). data_row i r)
                  (enumerate 1 (filter (\<lambda>r. date r = d) (reports_collection w))))] @
            (if get_action_items w d token = [] then []
             else [Heading 1 (lit ''Action Items''),
                   Paragraph (line_breaks (get_action_items w d token))]))\<rparr>)
      else (Inl (HTTPException 500 ''Internal Server Error''), w))"
proof -
  let ?cache = "find_one (\<lambda>a. items_date a = d) (action_items_collection w)"
  from assms have reports: "filter (\<lambda>r. date r = d) (reports_collection w) \<noteq> []"
    using reports_for_date [of d "reports_collection w"] by (simp add: find_to_list_def)
  note steps = download_report_def Let_def find_to_list_def get_action_items_def
    add_heading_def add_paragraph_run_def title_text fixed_texts fill_headers_table
    fill_rows_export
  show ?thesis
  proof (cases ?cache)
    case None
    with reports show ?thesis by (simp add: steps)
  next
    case (Some a)
    show ?thesis
    proof (cases "items a = []")
      case True
      with Some reports show ?thesis by (simp add: steps)
    next
      case False
      show ?thesis
      proof (cases "list_all xml_compatible (items a)")
        case True
        with Some False reports show ?thesis by (simp add: steps run_text_accepts)
      next
        case False
        then have "items a \<noteq> []" by auto
        with Some False reports show ?thesis by (simp add: steps run_text_rejects)
      qed
    qed
  qed
qed

lemma cached_items_unique:
  assumes "distinct (map items_date as)"
  shows "(case find_one (\<lambda>a. items_date a = d) as of Some a \<Rightarrow> items a | None \<Rightarrow> []) \<noteq> [] \<longleftrightarrow>
         (\<exists>a \<in> set as. items_date a = d \<and> items a \<noteq> [])"
  using assms
proof (induction as)
  case Nil
  then show ?case by (simp add: find_one_def)
next
  case (Cons a as)
  show ?case
  proof (cases "items_date a = d")
    case True
    from Cons.prems have "items_date a \<notin> items_date ` set as" by simp
    with True have "\<forall>b \<in> set as. items_date b \<noteq> d" by blast
    with True show ?thesis by (auto simp: find_one_def)
  next
    case False
    with Cons show ?thesis by (simp add: find_one_def)
  qed
qed

lemma str_examples: "str (Suc 0) = lit ''1''" "str (Suc (Suc 0)) = lit ''2''"
  by (subst str.simps, simp add: lit_def)+

lemma team_world_first_day:
  "filter (\<lambda>r. date r = lit ''2024-01-01'') (reports_collection team_world) =
     [alice_report, bob_report]"
  "filter (\<lambda>r. date r = lit ''2024-01-02'') (reports_collection team_world) =
     [alice_next_report]"
proof -
  have "lit ''2024-01-02'' \<noteq> lit ''2024-01-01''" by (simp add: lit_def)
  then show
    "filter (\<lambda>r. date r = lit ''2024-01-01'') (reports_collection team_world) =
       [alice_report, bob_report]"
    "filter (\<lambda>r. date r = lit ''2024-01-02'') (reports_collection team_world) =
       [alice_next_report]"
    by (auto simp: team_world_def empty_world_def alice_report_def bob_report_def
        alice_next_report_def)
qed

lemma team_world_cached:
  "get_action_items team_world (lit ''2024-01-01'') token = lit ''- review PR''"
  "get_action_items team_world (lit ''2024-01-02'') token = []"
proof -
  have "lit ''2024-01-01'' \<noteq> lit ''2024-01-02''" by (simp add: lit_def)
  then show "get_action_items team_world (lit ''2024-01-01'') token = lit ''- review PR''"
    "get_action_items team_world (lit ''2024-01-02'') token = []"
    by (simp_all add: get_action_items_def find_one_def team_world_def empty_world_def
        alice_items_def)
qed

lemma example_texts:
  "list_all xml_compatible (lit ''2024-01-01'')"
  "list_all xml_compatible (lit ''2024-01-02'')"
  "list_all xml_compatible (lit ''- review PR'')"
  "line_breaks (lit ''2024-01-01'') = lit ''2024-01-01''"
  "line_breaks (lit ''2024-01-02'') = lit ''2024-01-02''"
  "line_breaks (lit ''- review PR'') = lit ''- review PR''"
  "exportable alice_report" "exportable bob_report" "exportable alice_next_report"
  "data_row i alice_report =
     [str i, lit ''Alice'', lit ''wrote tests'', lit ''review PR'', lit ''None'']"
  "data_row i bob_report =
     [str i, lit ''Bob'', lit ''fixed login'', lit ''deploy'', lit ''None'']"
  "data_row i alice_next_report =
     [str i, lit ''Alice'', lit ''review PR'', lit ''merge PR'', lit ''None'']"
  by (simp_all add: exportable_def data_row_def xml_compatible_def line_breaks_def
      alice_report_def bob_report_def alice_next_report_def lit_def)

lemma example_paths:
  "flat_directory (lit ''mom-report-'' @ lit ''2024-01-01'' @ lit ''.docx'')"
  "flat_directory (lit ''mom-report-'' @ lit ''2024-01-02'' @ lit ''.docx'')"
  "\<not> flat_directory (lit ''mom-report-'' @ lit ''2024/01/01'' @ lit ''.docx'')"
  by (simp_all add: flat_directory_def lit_def)

text \<open>
  What the validation of a submission leaves out: \<^verbatim>\<open>save_report\<close> accepts a
  report with a form feed (two words to \<^verbatim>\<open>split\<close>), and the export of its date
  then ends with status 500 and no file; so does the export of a date with a slash
  where the file cannot be created.
\<close>

lemma download_report_form_feed:
  "save_report empty_world (lit ''2024-01-03'') (lit ''Alice'')
       (lit ''wrote'' @ [12] @ lit ''tests'') (lit ''review PR'') [] =
     (Inr ''Report saved successfully'',
      empty_world\<lparr>reports_collection := [form_feed_report]\<rparr>) \<and>
   download_report flat_directory (empty_world\<lparr>reports_collection := [form_feed_report]\<rparr>)
       (lit ''2024-01-03'') [] =
     (Inl (HTTPException 500 ''Internal Server Error''),
      empty_world\<lparr>reports_collection := [form_feed_report]\<rparr>)"
proof -
  let ?w = "empty_world\<lparr>reports_collection := [form_feed_report]\<rparr>"
  have words: "count_words (lit ''wrote'' @ [12] @ lit ''tests'') = 2"
    "py_strip (lit ''wrote'' @ [12] @ lit ''tests'') \<noteq> []"
    by (simp_all add: string_defs)
  have saved: "save_report empty_world (lit ''2024-01-03'') (lit ''Alice'')
       (lit ''wrote'' @ [12] @ lit ''tests'') (lit ''review PR'') [] =
     (Inr ''Report saved successfully'', ?w)"
    using words
    by (simp add: save_report_def count_words_examples py_strip_examples lit_nonempty
        find_one_def insert_one_def form_feed_report_def empty_world_def)
  have day: "lit ''2024-01-03'' \<in> set (map date (reports_collection ?w))"
    by (simp add: form_feed_report_def)
  have "\<not> exportable form_feed_report"
    by (simp add: exportable_def form_feed_report_def xml_compatible_def)
  then have "\<not> list_all exportable
      (filter (\<lambda>r. date r = lit ''2024-01-03'') (reports_collection ?w))"
    by (simp add: form_feed_report_def)
  with download_report_result [OF day, of flat_directory "[]"] saved show ?thesis
    by simp
qed

lemma download_report_slash:
  "download_report flat_directory
       (empty_world\<lparr>reports_collection := [alice_report\<lparr>date := lit ''2024/01/01''\<rparr>]\<rparr>)
       (lit ''2024/01/01'') [] =
     (Inl (HTTPException 500 ''Internal Server Error''),
      empty_world\<lparr>reports_collection := [alice_report\<lparr>date := lit ''2024/01/01''\<rparr>]\<rparr>)"
proof -
  let ?w = "empty_world\<lparr>reports_collection := [alice_report\<lparr>date := lit ''2024/01/01''\<rparr>]\<rparr>"
  have day: "lit ''2024/01/01'' \<in> set (map date (reports_collection ?w))"
    by simp
  from download_report_result [OF day, of flat_directory "[]"] example_paths(3)
  show ?thesis by simp
qed

text \<open>
  C7 (amended): for a date with at least one report, when the document library
  accepts the date, the fields of the date's reports and the cached action items (all
  their characters are XML-compatible) and the export file can be created,
  \<^verbatim>\<open>download_report\<close> saves and returns a document with the title, the section heading
  and a table of the header row and one data row per report of the date, in listing
  order and numbered from 1, every text with its carriage returns read as line breaks.
  The Blockers cell holds the text \<open>None\<close> when the blockers of the report are empty and
  the blockers themselves otherwise. The heading \<open>Action Items\<close> and its paragraph
  follow exactly when the cached text that \<^verbatim>\<open>get_action_items\<close> reads for the date is
  not empty; with at most one record per date, that is when a record of the date with
  non-empty items exists.
\<close>

theorem download_report_document_rows:
  "d \<in> set (map date (reports_collection w)) \<Longrightarrow>
   reports = filter (\<lambda>r. date r = d) (reports_collection w) \<Longrightarrow>
   cached = get_action_items w d token \<Longrightarrow>
   file_path = lit ''mom-report-'' @ d @ lit ''.docx'' \<Longrightarrow>
   list_all xml_compatible d \<Longrightarrow>
   list_all exportable reports \<Longrightarrow>
   list_all xml_compatible cached \<Longrightarrow>
   can_save file_path \<Longrightarrow>
   download_report can_save w d token =
     (Inr \<lparr>path = file_path, filename = file_path,
           media_type =
             ''application/vnd.openxmlformats-officedocument.wordprocessingml.document''\<rparr>,
      w\<lparr>files := (files w)(file_path \<mapsto>
         [Heading 0 (lit ''MOM Consolidated Report - '' @ line_breaks d),
          Heading 1 (lit ''Daily Progress Reports''),
          Table ''Table Grid''
            (headers #
             map (\<lambda>(i, r). [str i, line_breaks (name r), line_breaks (yesterday r),
                    line_breaks (today r),
                    if blockers r = [] then lit ''None'' else line_breaks (blockers r)])
               (enumerate 1 reports))] @
         (if cached = [] then []
          else [Heading 1 (lit ''Action Items''), Paragraph (line_breaks cached)]))\<rparr>) \<and>
   (distinct (map items_date (action_items_collection w)) \<longrightarrow>
      (cached \<noteq> [] \<longleftrightarrow>
         (\<exists>a \<in> set (action_items_collection w). items_date a = d \<and> items a \<noteq> [])))"
proof -
  assume day: "d \<in> set (map date (reports_collection w))"
    and eqs: "reports = filter (\<lambda>r. date r = d) (reports_collection w)"
      "cached = get_action_items w d token"
      "file_path = lit ''mom-report-'' @ d @ lit ''.docx''"
    and accepted: "list_all xml_compatible d" "list_all exportable reports"
      "list_all xml_compatible cached" "can_save file_path"
  have rows: "(\<lambda>(i, r). [str i, line_breaks (name r), line_breaks (yesterday r),
      line_breaks (today r),
      if blockers r = [] then lit ''None'' else line_breaks (blockers r)]) =
      (\<lambda>(i, r). data_row i r)"
    by (simp add: data_row_def)
  have unique: "cached \<noteq> [] \<longleftrightarrow>
      (\<exists>a \<in> set (action_items_collection w). items_date a = d \<and> items a \<noteq> [])"
    if "distinct (map items_date (action_items_collection w))"
    unfolding eqs get_action_items_def using that by (rule cached_items_unique)
  from accepted have "list_all xml_compatible d \<and>
      list_all exportable (filter (\<lambda>r. date r = d) (reports_collection w)) \<and>
      list_all xml_compatible (get_action_items w d token) \<and>
      can_save (lit ''mom-report-'' @ d @ lit ''.docx'')"
    unfolding eqs by simp
  with download_report_result [OF day, of can_save token]
  have "download_report can_save w d token =
     (Inr \<lparr>path = lit ''mom-report-'' @ d @ lit ''.docx'',
           filename = lit ''mom-report-'' @ d @ lit ''.docx'',
           media_type =
             ''application/vnd.openxmlformats-officedocument.wordprocessingml.document''\<rparr>,
      w\<lparr>files := (files w)(lit ''mom-report-'' @ d @ lit ''.docx'' \<mapsto>
         [Heading 0 (lit ''MOM Consolidated Report - '' @ line_breaks d),
          Heading 1 (lit ''Daily Progress Reports''),
          Table ''Table Grid''
            (headers # map (\<lambda>(i, r). data_row i r)
               (enumerate 1 (filter (\<lambda>r. date r = d) (reports_collection w))))] @
         (if get_action_items w d token = [] then []
          else [Heading 1 (lit ''Action Items''),
                Paragraph (line_breaks (get_action_items w d token))]))\<rparr>)"
    by (simp only: simp_thms if_True)
  with unique show ?thesis
    unfolding eqs rows by blast
qed

theorem download_report_document_rows_witness:
  "lit ''2024-01-02'' \<in> set (map date (reports_collection team_world)) \<and>
   list_all xml_compatible (lit ''2024-01-02'') \<and>
   list_all exportable [alice_next_report] \<and>
   flat_directory (lit ''mom-report-'' @ lit ''2024-01-02'' @ lit ''.docx'') \<and>
   distinct (map items_date (action_items_collection team_world)) \<and>
   download_report flat_directory team_world (lit ''2024-01-02'') [] =
     (Inr \<lparr>path = lit ''mom-report-'' @ lit ''2024-01-02'' @ lit ''.docx'',
           filename = lit ''mom-report-'' @ lit ''2024-01-02'' @ lit ''.docx'',
           media_type =
             ''application/vnd.openxmlformats-officedocument.wordprocessingml.document''\<rparr>,
      team_world\<lparr>files := (files team_world)
        (lit ''mom-report-'' @ lit ''2024-01-02'' @ lit ''.docx'' \<mapsto>
         [Heading 0 (lit ''MOM Consolidated Report - '' @ lit ''2024-01-02''),
          Heading 1 (lit ''Daily Progress Reports''),
          Table ''Table Grid''
            [headers,
             [lit ''1'', lit ''Alice'', lit ''review PR'', lit ''merge PR'', lit ''None'']]])\<rparr>)"
proof -
  have day: "lit ''2024-01-02'' \<in> set (map date (reports_collection team_world))"
    by (simp add: team_world_def empty_world_def alice_next_report_def)
  have one: "distinct (map items_date (action_items_collection team_world))"
    by (simp add: team_world_def empty_world_def)
  have accepted: "list_all exportable [alice_next_report]" "list_all xml_compatible []"
    by (simp_all add: example_texts)
  have row: "[str (Suc 0), line_breaks (name alice_next_report),
      line_breaks (yesterday alice_next_report), line_breaks (today alice_next_report),
      if blockers alice_next_report = [] then lit ''None''
      else line_breaks (blockers alice_next_report)] =
      [lit ''1'', lit ''Alice'', lit ''review PR'', lit ''merge PR'', lit ''None'']"
    using example_texts(12) [of "Suc 0"] by (simp add: data_row_def str_examples)
  from download_report_document_rows [where can_save = flat_directory and token = "[]",
      OF day team_world_first_day(2) [symmetric] team_world_cached(2) [symmetric] refl
        example_texts(2) accepted example_paths(2)]
  have "download_report flat_directory team_world (lit ''2024-01-02'') [] =
     (Inr \<lparr>path = lit ''mom-report-'' @ lit ''2024-01-02'' @ lit ''.docx'',
           filename = lit ''mom-report-'' @ lit ''2024-01-02'' @ lit ''.docx'',
           media_type =
             ''application/vnd.openxmlformats-officedocument.wordprocessingml.document''\<rparr>,
      team_world\<lparr>files := (files team_world)
        (lit ''mom-report-'' @ lit ''2024-01-02'' @ lit ''.docx'' \<mapsto>
         [Heading 0 (lit ''MOM Consolidated Report - '' @ lit ''2024-01-02''),
          Heading 1 (lit ''Daily Progress Reports''),
          Table ''Table Grid''
            [headers,
             [lit ''1'', lit ''Alice'', lit ''review PR'', lit ''merge PR'', lit ''None'']]])\<rparr>)"
    by (simp add: enumerate_simps row example_texts(5))
  with day one accepted(1) example_texts(2) example_paths(2) show ?thesis
    by (simp only: simp_thms)
qed

text \<open>
  Bob wrote \<open>None\<close> into his blockers himself: his Blockers cell holds the text \<open>None\<close>
  although his blockers are not empty.
\<close>

theorem download_report_none_counterexample:
  "filter (\<lambda>r. date r = lit ''2024-01-01'') (reports_collection team_world) =
     [alice_report, bob_report] \<and>
   blockers bob_report \<noteq> [] \<and>
   download_report flat_directory team_world (lit ''2024-01-01'') [] =
     (Inr \<lparr>path = lit ''mom-report-'' @ lit ''2024-01-01'' @ lit ''.docx'',
           filename = lit ''mom-report-'' @ lit ''2024-01-01'' @ lit ''.docx'',
           media_type =
             ''application/vnd.openxmlformats-officedocument.wordprocessingml.document''\<rparr>,
      team_world\<lparr>files := (files team_world)
        (lit ''mom-report-'' @ lit ''2024-01-01'' @ lit ''.docx'' \<mapsto>
         [Heading 0 (lit ''MOM Consolidated Report - '' @ lit ''2024-01-01''),
          Heading 1 (lit ''Daily Progress Reports''),
          Table ''Table Grid''
            [headers,
             [lit ''1'', lit ''Alice'', lit ''wrote tests'', lit ''review PR'', lit ''None''],
             [lit ''2'', lit ''Bob'', lit ''fixed login'', lit ''deploy'', lit ''None'']],
          Heading 1 (lit ''Action Items''),
          Paragraph (lit ''- review PR'')])\<rparr>)"
proof -
  have day: "lit ''2024-01-01'' \<in> set (map date (reports_collection team_world))"
    by (simp add: team_world_def empty_world_def alice_report_def)
  have filled: "blockers bob_report \<noteq> []" "lit ''- review PR'' \<noteq> []"
    by (simp_all add: bob_report_def lit_def)
  from download_report_result [OF day, of flat_directory "[]"] filled show ?thesis
    by (simp add: team_world_first_day team_world_cached enumerate_simps example_texts
        example_paths str_examples)
qed

end
